theory Spec2Isabelle
  imports Complex_Main "HOL-Library.AList"
begin

section \<open>Python string primitives\<close>

text \<open>
  Text is modelled as \<^typ>\<open>string\<close> over ASCII code points. The functions below are the
  Python \<^verbatim>\<open>str\<close> methods the retrieval code calls: \<^verbatim>\<open>lower\<close>, \<^verbatim>\<open>strip\<close>,
  \<^verbatim>\<open>split\<close> (no argument), \<^verbatim>\<open>count\<close>, the \<^verbatim>\<open>in\<close> substring test and
  slicing \<^verbatim>\<open>s[:n]\<close> (\<^const>\<open>take\<close>).
\<close>

definition lower_char :: "char \<Rightarrow> char" where
  "lower_char c =
     (case map_of (zip ''ABCDEFGHIJKLMNOPQRSTUVWXYZ'' ''abcdefghijklmnopqrstuvwxyz'') c of
        None \<Rightarrow> c
      | Some d \<Rightarrow> d)"

definition py_lower :: "string \<Rightarrow> string" where
  "py_lower s = map lower_char s"

definition isspace :: "char \<Rightarrow> bool" where
  "isspace c = (c \<in> set [CHR 0x09, CHR 0x0A, CHR 0x0B, CHR 0x0C, CHR 0x0D,
                          CHR 0x1C, CHR 0x1D, CHR 0x1E, CHR 0x1F, CHR 0x20])"

definition is_word_char :: "char \<Rightarrow> bool" where
  "is_word_char c =
     (c \<in> set ''abcdefghijklmnopqrstuvwxyzABCDEFGHIJKLMNOPQRSTUVWXYZ0123456789_'')"

definition py_strip :: "string \<Rightarrow> string" where
  "py_strip s = rev (dropWhile isspace (rev (dropWhile isspace s)))"

fun split_acc :: "string \<Rightarrow> string \<Rightarrow> string list" where
  "split_acc w [] = (if w = [] then [] else [w])"
| "split_acc w (c # cs) =
     (if isspace c then (if w = [] then split_acc [] cs else w # split_acc [] cs)
      else split_acc (w @ [c]) cs)"

definition py_split :: "string \<Rightarrow> string list" where
  "py_split s = split_acc [] s"

definition starts_with :: "string \<Rightarrow> string \<Rightarrow> bool" where
  "starts_with s t = (take (length t) s = t)"

fun re_search :: "(string \<Rightarrow> bool) \<Rightarrow> string \<Rightarrow> bool" where
  "re_search p [] = p []"
| "re_search p (c # cs) = (p (c # cs) \<or> re_search p cs)"

definition contains :: "string \<Rightarrow> string \<Rightarrow> bool" where
  "contains s t = re_search (\<lambda>u. starts_with u t) s"

function py_count :: "string \<Rightarrow> string \<Rightarrow> nat" where
  "py_count s t =
     (if t = [] then Suc (length s)
      else if s = [] then 0
      else if starts_with s t then Suc (py_count (drop (length t) s) t)
      else py_count (tl s) t)"
  by pat_completeness auto
termination
  by (relation "measure (\<lambda>(s, t). length s)") auto

declare py_count.simps [simp del]

section \<open>Errors\<close>

text \<open>
  The exception classes of \<^verbatim>\<open>error_handling.py\<close> that the search and embedding code
  raises. \<open>ValidationError field message\<close> keeps the field and the fixed part of the
  message (interpolated numbers and list indices are left out); \<open>RequestValidationError\<close> is the rejection of a request body by a pydantic
  model's \<^verbatim>\<open>Field\<close> bounds. \<open>CardinalityViolation\<close> is the database refusing one
  \<^verbatim>\<open>INSERT ... ON CONFLICT DO UPDATE\<close> statement that names the same conflict key twice.
\<close>

datatype error =
    ValidationError string string
  | RequestValidationError string
  | DatabaseError string
  | ExternalServiceError string
  | CardinalityViolation

section \<open>InputValidator\<close>

definition MAX_STRING_LENGTH :: nat where "MAX_STRING_LENGTH = 10000"
definition MAX_LIST_LENGTH :: nat where "MAX_LIST_LENGTH = 1000"
definition MAX_QUERY_LENGTH :: nat where "MAX_QUERY_LENGTH = 500"

text \<open>
  The three pattern lists of \<^verbatim>\<open>InputValidator\<close>, searched case-insensitively
  (\<^verbatim>\<open>re.search(pattern, value, re.IGNORECASE)\<close>): the patterns are lower-case, so each
  is searched in the lower-cased value.
\<close>

definition SQL_INJECTION_PATTERNS :: "string list list" where
  "SQL_INJECTION_PATTERNS =
     [[[CHR 0x27], ''--'', '';'', ''|'', ''*''],
      [''union'', ''select'', ''insert'', ''delete'', ''update'', ''drop'', ''create'',
       ''alter'', ''exec'', ''execute''],
      [''script'', ''javascript'', ''vbscript'', ''onload'', ''onerror'', ''onclick'']]"

fun lazy_until :: "string \<Rightarrow> string \<Rightarrow> bool" where
  "lazy_until closing [] = (closing = [])"
| "lazy_until closing (c # cs) =
     (starts_with (c # cs) closing \<or> (c \<noteq> CHR 0x0A \<and> lazy_until closing cs))"

definition tag_block_at :: "string \<Rightarrow> string \<Rightarrow> bool" where
  "tag_block_at name s =
     (starts_with s (''<'' @ name) \<and>
      (case dropWhile (\<lambda>c. c \<noteq> CHR ''>'') (drop (Suc (length name)) s) of
         [] \<Rightarrow> False
       | _ # body \<Rightarrow> lazy_until (''</'' @ name @ ''>'') body))"

definition on_handler_at :: "string \<Rightarrow> bool" where
  "on_handler_at s =
     (starts_with s ''on'' \<and> takeWhile is_word_char (drop 2 s) \<noteq> [] \<and>
      (case dropWhile isspace (dropWhile is_word_char (drop 2 s)) of
         [] \<Rightarrow> False
       | c # _ \<Rightarrow> c = CHR ''=''))"

definition XSS_PATTERNS :: "(string \<Rightarrow> bool) list" where
  "XSS_PATTERNS =
     [re_search (tag_block_at ''script''),
      (\<lambda>s. contains s ''javascript:''),
      re_search on_handler_at,
      re_search (tag_block_at ''iframe'')]"

definition PATH_TRAVERSAL_PATTERNS :: "string list" where
  "PATH_TRAVERSAL_PATTERNS = [''../'', [CHR ''.'', CHR ''.'', CHR 0x5C], ''%2e%2e%2f'', ''%2e%2e%5c'']"

definition html_escape :: "char \<Rightarrow> string" where
  "html_escape c =
     (if c = CHR ''<'' then ''&lt;''
      else if c = CHR ''>'' then ''&gt;''
      else if c = CHR 0x22 then ''&quot;''
      else if c = CHR 0x27 then ''&#x27;''
      else [c])"

definition sanitize_string :: "string \<Rightarrow> string \<Rightarrow> error + string" where
  "sanitize_string v field_name =
     (if list_ex (\<lambda>alts. list_ex (contains (py_lower v)) alts) SQL_INJECTION_PATTERNS
      then Inl (ValidationError field_name ''contains potentially malicious content'')
      else if list_ex (\<lambda>p. p (py_lower v)) XSS_PATTERNS
      then Inl (ValidationError field_name ''contains potentially malicious content'')
      else if list_ex (contains (py_lower v)) PATH_TRAVERSAL_PATTERNS
      then Inl (ValidationError field_name ''contains invalid path characters'')
      else Inr (py_strip (concat (map html_escape v))))"

definition validate_string ::
  "string \<Rightarrow> string \<Rightarrow> nat \<Rightarrow> nat option \<Rightarrow> bool \<Rightarrow> error + string" where
  "validate_string v field_name min_length max_length allow_empty =
     (if \<not> allow_empty \<and> py_strip v = []
      then Inl (ValidationError field_name ''cannot be empty'')
      else if length v < min_length
      then Inl (ValidationError field_name ''must be at least min_length characters'')
      else if length v >
              (case max_length of None \<Rightarrow> MAX_STRING_LENGTH
               | Some n \<Rightarrow> if n = 0 then MAX_STRING_LENGTH else n)
      then Inl (ValidationError field_name ''must be at most max_len characters'')
      else sanitize_string v field_name)"

definition validate_integer ::
  "int \<Rightarrow> string \<Rightarrow> int option \<Rightarrow> int option \<Rightarrow> error + int" where
  "validate_integer v field_name min_value max_value =
     (if (case min_value of None \<Rightarrow> False | Some lo \<Rightarrow> v < lo)
      then Inl (ValidationError field_name ''must be at least min_value'')
      else if (case max_value of None \<Rightarrow> False | Some hi \<Rightarrow> v > hi)
      then Inl (ValidationError field_name ''must be at most max_value'')
      else Inr v)"

definition validate_float ::
  "real \<Rightarrow> string \<Rightarrow> real option \<Rightarrow> real option \<Rightarrow> error + real" where
  "validate_float v field_name min_value max_value =
     (if (case min_value of None \<Rightarrow> False | Some lo \<Rightarrow> v < lo)
      then Inl (ValidationError field_name ''must be at least min_value'')
      else if (case max_value of None \<Rightarrow> False | Some hi \<Rightarrow> v > hi)
      then Inl (ValidationError field_name ''must be at most max_value'')
      else Inr v)"

fun validate_items :: "('a \<Rightarrow> error + 'b) \<Rightarrow> string \<Rightarrow> 'a list \<Rightarrow> error + 'b list" where
  "validate_items item_validator field_name [] = Inr []"
| "validate_items item_validator field_name (x # xs) =
     (case item_validator x of
        Inl e \<Rightarrow> Inl (ValidationError field_name ''item is invalid'')
      | Inr y \<Rightarrow>
          (case validate_items item_validator field_name xs of
             Inl e \<Rightarrow> Inl e
           | Inr ys \<Rightarrow> Inr (y # ys)))"

definition validate_list ::
  "'a list \<Rightarrow> string \<Rightarrow> nat option \<Rightarrow> ('a \<Rightarrow> error + 'b) \<Rightarrow> error + 'b list" where
  "validate_list v field_name max_length item_validator =
     (if length v >
           (case max_length of None \<Rightarrow> MAX_LIST_LENGTH
            | Some n \<Rightarrow> if n = 0 then MAX_LIST_LENGTH else n)
      then Inl (ValidationError field_name ''must contain at most max_len items'')
      else validate_items item_validator field_name v)"

definition validate_search_query :: "string \<Rightarrow> error + string" where
  "validate_search_query q =
     (case validate_string q ''search_query'' 1 (Some MAX_QUERY_LENGTH) False of
        Inl e \<Rightarrow> Inl e
      | Inr v \<Rightarrow>
          if length (py_split v) > 50
          then Inl (ValidationError ''search_query'' ''contains too many terms (max 50)'')
          else Inr v)"

definition validate_pagination :: "int \<Rightarrow> int \<Rightarrow> error + (int \<times> int)" where
  "validate_pagination ofs lmt =
     (case validate_integer ofs ''offset'' (Some 0) None of
        Inl e \<Rightarrow> Inl e
      | Inr ofs' \<Rightarrow>
          (case validate_integer lmt ''limit'' (Some 1) (Some 100) of
             Inl e \<Rightarrow> Inl e
           | Inr lmt' \<Rightarrow> Inr (ofs', lmt')))"

text \<open>
  The assistant filter of every endpoint: \<^verbatim>\<open>None\<close> or an empty list stays \<^verbatim>\<open>None\<close>;
  otherwise at most 20 names, each validated (and sanitized) as a string of 1 to 100
  characters.
\<close>

definition validate_assistant_filter :: "string list option \<Rightarrow> error + string list option" where
  "validate_assistant_filter af =
     (case af of
        None \<Rightarrow> Inr None
      | Some names \<Rightarrow>
          if names = [] then Inr None
          else (case validate_list names ''assistant_filter'' (Some 20)
                       (\<lambda>x. validate_string x ''assistant_name'' 1 (Some 100) True) of
                  Inl e \<Rightarrow> Inl e
                | Inr vs \<Rightarrow> Inr (Some vs)))"

section \<open>The content store\<close>

text \<open>
  The ORM tables the retrieval core reads and writes, as lists of rows in table order.
  A query without \<^verbatim>\<open>ORDER BY\<close> returns its rows in that order. Wall-clock columns
  (\<^verbatim>\<open>created_at\<close>) and the server-generated key of an embedding row are left out.
  \<open>c_key_concepts_text\<close> is the text the database gives \<^verbatim>\<open>key_concepts\<close> under
  \<^verbatim>\<open>CAST\<close>.
\<close>

record assistant =
  a_id :: string
  a_name :: string

record thread =
  t_id :: string
  t_title :: string
  t_assistant_id :: string

record message =
  m_id :: string
  m_thread_id :: string
  m_role :: string
  m_content :: string
  m_timestamp :: int

record artifact =
  art_id :: string
  art_message_id :: string
  art_title :: string
  art_content :: string

record memory_card =
  c_id :: string
  c_message_id :: string
  c_title :: string
  c_summary :: string
  c_content_summary :: string
  c_key_concepts_text :: string
  c_importance_score :: real

record embedding =
  e_target_kind :: string
  e_target_id :: string
  e_model :: string
  e_dim :: nat
  e_vector :: "real list"

record database =
  assistants :: "assistant list"
  threads :: "thread list"
  messages :: "message list"
  artifacts :: "artifact list"
  memory_cards :: "memory_card list"
  embeddings :: "embedding list"

text \<open>
  A request's database session: the tables, and for each successive block of queries a
  search endpoint issues whether the database raises there (a timeout, a lost
  connection). An exhausted schedule means no further failure.
\<close>

record session =
  db :: database
  faults :: "bool list"

definition next_fault :: "session \<Rightarrow> bool \<times> session" where
  "next_fault s =
     (case faults s of
        [] \<Rightarrow> (False, s)
      | f # fs \<Rightarrow> (f, s\<lparr>faults := fs\<rparr>))"

section \<open>Request and response models of the search router\<close>

record search_query =
  sq_query :: string
  sq_limit :: int
  sq_offset :: int
  sq_assistant_filter :: "string list option"
  sq_date_from :: "int option"
  sq_date_to :: "int option"
  sq_include_artifacts :: bool
  sq_include_memory_cards :: bool

record vector_search_query =
  vq_query :: string
  vq_similarity_threshold :: real
  vq_limit :: int
  vq_assistant_filter :: "string list option"

record hybrid_search_query =
  hq_query :: string
  hq_text_weight :: real
  hq_vector_weight :: real
  hq_limit :: int
  hq_assistant_filter :: "string list option"

record search_result =
  r_id :: string
  r_type :: string
  r_content :: string
  r_title :: "string option"
  r_score :: real
  r_timestamp :: int
  r_assistant_name :: string
  r_thread_title :: string

record search_response =
  results :: "search_result list"
  total_count :: nat
  resp_query :: string
  search_type :: string

text \<open>
  A \<^verbatim>\<open>SearchResult\<close> is kept without its \<^verbatim>\<open>metadata\<close> dictionary and a
  \<^verbatim>\<open>SearchResponse\<close> without \<^verbatim>\<open>execution_time_ms\<close>, a wall-clock reading; no
  decision of the code reads either.
\<close>

text \<open>
  Constructing a pydantic model checks the \<^verbatim>\<open>Field(ge=..., le=...)\<close> bounds and raises
  when one is violated. \<open>SearchQuery\<close>, \<open>VectorSearchQuery\<close> and \<open>HybridSearchQuery\<close>
  are these constructors.
\<close>

definition SearchQuery ::
  "string \<Rightarrow> int \<Rightarrow> int \<Rightarrow> string list option \<Rightarrow> int option \<Rightarrow> int option \<Rightarrow> bool \<Rightarrow> bool
     \<Rightarrow> error + search_query" where
  "SearchQuery q lmt ofs af date_from date_to include_artifacts include_memory_cards =
     (if lmt < 1 \<or> lmt > 100 then Inl (RequestValidationError ''limit'')
      else if ofs < 0 then Inl (RequestValidationError ''offset'')
      else Inr \<lparr>sq_query = q, sq_limit = lmt, sq_offset = ofs, sq_assistant_filter = af,
                 sq_date_from = date_from, sq_date_to = date_to,
                 sq_include_artifacts = include_artifacts,
                 sq_include_memory_cards = include_memory_cards\<rparr>)"

definition VectorSearchQuery ::
  "string \<Rightarrow> real \<Rightarrow> int \<Rightarrow> string list option \<Rightarrow> error + vector_search_query" where
  "VectorSearchQuery q threshold lmt af =
     (if threshold < 0 \<or> threshold > 1 then Inl (RequestValidationError ''similarity_threshold'')
      else if lmt < 1 \<or> lmt > 100 then Inl (RequestValidationError ''limit'')
      else Inr \<lparr>vq_query = q, vq_similarity_threshold = threshold, vq_limit = lmt,
                 vq_assistant_filter = af\<rparr>)"

definition HybridSearchQuery ::
  "string \<Rightarrow> real \<Rightarrow> real \<Rightarrow> int \<Rightarrow> string list option \<Rightarrow> error + hybrid_search_query" where
  "HybridSearchQuery q tw vw lmt af =
     (if tw < 0 \<or> tw > 1 then Inl (RequestValidationError ''text_weight'')
      else if vw < 0 \<or> vw > 1 then Inl (RequestValidationError ''vector_weight'')
      else if lmt < 1 \<or> lmt > 100 then Inl (RequestValidationError ''limit'')
      else Inr \<lparr>hq_query = q, hq_text_weight = tw, hq_vector_weight = vw, hq_limit = lmt,
                 hq_assistant_filter = af\<rparr>)"

section \<open>text_search\<close>

text \<open>
  \<^verbatim>\<open>session.query(Message).join(Thread).join(Assistant)\<close> and the memory-card query
  joined through its message, as inner joins. \<^verbatim>\<open>column.contains(term)\<close> is the
  substring test \<^const>\<open>contains\<close>.
\<close>

definition joined_messages :: "database \<Rightarrow> (message \<times> thread \<times> assistant) list" where
  "joined_messages d =
     [(m, t, a). m \<leftarrow> messages d, t \<leftarrow> threads d, t_id t = m_thread_id m,
                 a \<leftarrow> assistants d, a_id a = t_assistant_id t]"

definition joined_memory_cards ::
  "database \<Rightarrow> (memory_card \<times> message \<times> thread \<times> assistant) list" where
  "joined_memory_cards d =
     [(c, m, t, a). c \<leftarrow> memory_cards d, (m, t, a) \<leftarrow> joined_messages d,
                    m_id m = c_message_id c]"

definition message_matches :: "string list \<Rightarrow> message \<times> thread \<times> assistant \<Rightarrow> bool" where
  "message_matches terms row =
     (case row of (m, t, a) \<Rightarrow>
        list_all (\<lambda>term. contains (py_lower (m_content m)) term \<or>
                         contains (py_lower (t_title t)) term) terms)"

definition assistant_allowed :: "string list option \<Rightarrow> assistant \<Rightarrow> bool" where
  "assistant_allowed af a =
     (case af of None \<Rightarrow> True | Some names \<Rightarrow> a_name a \<in> set names)"

text \<open>
  The relevance score of lines 190-193: the occurrences of the terms in the lower-cased
  content, averaged over the terms, divided by 10 and capped at 1.
\<close>

definition relevance :: "string list \<Rightarrow> string \<Rightarrow> real" where
  "relevance terms content_lower =
     min (real (sum_list (map (py_count content_lower) terms)) / real (length terms) / 10) 1"

definition preview :: "string \<Rightarrow> string" where
  "preview c = (if length c > 500 then take 500 c @ ''...'' else c)"

definition message_result ::
  "string list \<Rightarrow> message \<times> thread \<times> assistant \<Rightarrow> search_result" where
  "message_result terms row =
     (case row of (m, t, a) \<Rightarrow>
        \<lparr>r_id = m_id m, r_type = ''message'', r_content = preview (m_content m),
         r_title = None, r_score = relevance terms (py_lower (m_content m)),
         r_timestamp = m_timestamp m, r_assistant_name = a_name a,
         r_thread_title = t_title t\<rparr>)"

definition artifact_results ::
  "database \<Rightarrow> string list \<Rightarrow> message \<times> thread \<times> assistant \<Rightarrow> search_result list" where
  "artifact_results d terms row =
     (case row of (m, t, a) \<Rightarrow>
        map (\<lambda>x. \<lparr>r_id = art_id x, r_type = ''artifact'', r_content = preview (art_content x),
                   r_title = Some (art_title x),
                   r_score = relevance terms (py_lower (art_content x)),
                   r_timestamp = m_timestamp m, r_assistant_name = a_name a,
                   r_thread_title = t_title t\<rparr>)
          (filter (\<lambda>x. list_ex (contains (py_lower (art_content x))) terms)
             (filter (\<lambda>x. art_message_id x = m_id m) (artifacts d))))"

definition memory_card_result ::
  "string list \<Rightarrow> memory_card \<times> message \<times> thread \<times> assistant \<Rightarrow> search_result" where
  "memory_card_result terms row =
     (case row of (c, m, t, a) \<Rightarrow>
        \<lparr>r_id = c_id c, r_type = ''memory_card'', r_content = c_content_summary c,
         r_title = None,
         r_score = relevance terms (py_lower (c_content_summary c)) * c_importance_score c,
         r_timestamp = m_timestamp m, r_assistant_name = a_name a,
         r_thread_title = t_title t\<rparr>)"

definition memory_card_matches ::
  "string list \<Rightarrow> memory_card \<times> message \<times> thread \<times> assistant \<Rightarrow> bool" where
  "memory_card_matches terms row =
     (case row of (c, m, t, a) \<Rightarrow>
        list_all (\<lambda>term. contains (py_lower (c_content_summary c)) term \<or>
                         contains (py_lower (c_key_concepts_text c)) term) terms)"

definition sort_by_score :: "search_result list \<Rightarrow> search_result list" where
  "sort_by_score rs = sort_key (\<lambda>r. - r_score r) rs"

text \<open>
  The message rows of one text search: the term filter, the assistant and date filters,
  the final \<^verbatim>\<open>.filter(message_query.whereclause is not None)\<close>, then offset and limit.
\<close>

definition message_page ::
  "database \<Rightarrow> string list \<Rightarrow> string list option \<Rightarrow> search_query \<Rightarrow> int \<Rightarrow> int
     \<Rightarrow> (message \<times> thread \<times> assistant) list" where
  "message_page d terms af q ofs lmt =
     (if terms = [] \<and> af = None \<and> sq_date_from q = None \<and> sq_date_to q = None then []
      else take (nat lmt) (drop (nat ofs)
        (filter (\<lambda>row. case row of (m, t, a) \<Rightarrow>
                   message_matches terms row \<and> assistant_allowed af a \<and>
                   (case sq_date_from q of None \<Rightarrow> True | Some lo \<Rightarrow> m_timestamp m \<ge> lo) \<and>
                   (case sq_date_to q of None \<Rightarrow> True | Some hi \<Rightarrow> m_timestamp m \<le> hi))
           (joined_messages d))))"

definition memory_card_page ::
  "database \<Rightarrow> string list \<Rightarrow> string list option \<Rightarrow> int
     \<Rightarrow> (memory_card \<times> message \<times> thread \<times> assistant) list" where
  "memory_card_page d terms af lmt =
     take (nat (lmt div 2))
       (filter (\<lambda>row. case row of (c, m, t, a) \<Rightarrow>
                  memory_card_matches terms row \<and> assistant_allowed af a)
          (joined_memory_cards d))"

text \<open>
  The body of the \<^verbatim>\<open>try\<close> block. With no search term the average of line 192
  divides by zero as soon as one row is scored; \<^verbatim>\<open>except Exception\<close> turns that into
  a \<open>DatabaseError\<close>.
\<close>

definition text_search_body ::
  "database \<Rightarrow> string \<Rightarrow> string list option \<Rightarrow> search_query \<Rightarrow> int \<Rightarrow> int
     \<Rightarrow> error + search_response" where
  "text_search_body d validated_query af q ofs lmt =
     (let search_terms = py_split (py_lower validated_query);
          page = message_page d search_terms af q ofs lmt;
          cards = (if sq_include_memory_cards q
                   then memory_card_page d search_terms af lmt else [])
      in if search_terms = [] \<and> (page \<noteq> [] \<or> cards \<noteq> [])
         then Inl (DatabaseError ''text_search'')
         else
           (let found =
                  concat (map (\<lambda>row. message_result search_terms row #
                                  (if sq_include_artifacts q
                                   then artifact_results d search_terms row else [])) page)
                  @ map (memory_card_result search_terms) cards;
                final = take (nat lmt) (sort_by_score found)
            in Inr \<lparr>results = final, total_count = length final,
                     resp_query = validated_query, search_type = ''text''\<rparr>))"

text \<open>
  The endpoint. An \<open>Inl\<close> result stands for the error the function raises, which the
  \<^verbatim>\<open>handle_api_errors\<close> wrapper hands to a caller as an error response object; a caller
  inside the module that reads \<^verbatim>\<open>.results\<close> of it raises in turn.
\<close>

definition text_search :: "search_query \<Rightarrow> session \<Rightarrow> (error + search_response) \<times> session" where
  "text_search q s =
     (case validate_search_query (sq_query q) of
        Inl e \<Rightarrow> (Inl e, s)
      | Inr validated_query \<Rightarrow>
          (case validate_pagination (sq_offset q) (sq_limit q) of
             Inl e \<Rightarrow> (Inl e, s)
           | Inr (ofs, lmt) \<Rightarrow>
               (case validate_assistant_filter (sq_assistant_filter q) of
                  Inl e \<Rightarrow> (Inl e, s)
                | Inr af \<Rightarrow>
                    (case next_fault s of
                       (True, s') \<Rightarrow> (Inl (DatabaseError ''text_search''), s')
                     | (False, s') \<Rightarrow>
                         (text_search_body (db s') validated_query af q ofs lmt, s')))))"

section \<open>vector_search\<close>

definition vector_search ::
  "vector_search_query \<Rightarrow> session \<Rightarrow> (error + search_response) \<times> session" where
  "vector_search q s =
     (case validate_search_query (vq_query q) of
        Inl e \<Rightarrow> (Inl e, s)
      | Inr validated_query \<Rightarrow>
          (case validate_float (vq_similarity_threshold q) ''similarity_threshold''
                  (Some 0) (Some 1) of
             Inl e \<Rightarrow> (Inl e, s)
           | Inr similarity_threshold \<Rightarrow>
               (case validate_assistant_filter (vq_assistant_filter q) of
                  Inl e \<Rightarrow> (Inl e, s)
                | Inr af \<Rightarrow>
                    (case SearchQuery validated_query (vq_limit q) 0 af None None True True of
                       Inl e \<Rightarrow> (Inl (ExternalServiceError ''embedding_service''), s)
                     | Inr text_query \<Rightarrow>
                         (case text_search text_query s of
                            (Inl e, s') \<Rightarrow> (Inl (ExternalServiceError ''embedding_service''), s')
                          | (Inr response, s') \<Rightarrow>
                              (let kept = filter (\<lambda>r. r_score r \<ge> similarity_threshold)
                                            (results response)
                               in (Inr (response\<lparr>search_type := ''vector_fallback'',
                                          results := kept, total_count := length kept\<rparr>),
                                   s')))))))"

section \<open>hybrid_search\<close>

text \<open>
  \<^verbatim>\<open>combined_results\<close> is a Python dict keyed by \<^verbatim>\<open>result.id\<close>: an association list
  in insertion order, where storing under a key that is present replaces the value in
  place (\<^const>\<open>AList.update\<close>).
\<close>

definition add_text_result ::
  "real \<Rightarrow> search_result \<Rightarrow> (string \<times> search_result) list \<Rightarrow> (string \<times> search_result) list" where
  "add_text_result text_weight r combined =
     AList.update (r_id r) (r\<lparr>r_score := r_score r * text_weight\<rparr>) combined"

definition add_vector_result ::
  "real \<Rightarrow> search_result \<Rightarrow> (string \<times> search_result) list \<Rightarrow> (string \<times> search_result) list" where
  "add_vector_result vector_weight r combined =
     (case map_of combined (r_id r) of
        Some c \<Rightarrow>
          AList.update (r_id r) (c\<lparr>r_score := r_score c + r_score r * vector_weight\<rparr>) combined
      | None \<Rightarrow>
          AList.update (r_id r) (r\<lparr>r_score := r_score r * vector_weight\<rparr>) combined)"

definition combine_results ::
  "real \<Rightarrow> real \<Rightarrow> search_result list \<Rightarrow> search_result list \<Rightarrow> (string \<times> search_result) list" where
  "combine_results text_weight vector_weight text_results vector_results =
     fold (add_vector_result vector_weight) vector_results
       (fold (add_text_result text_weight) text_results [])"

definition hybrid_search ::
  "hybrid_search_query \<Rightarrow> session \<Rightarrow> (error + search_response) \<times> session" where
  "hybrid_search q s =
     (case validate_search_query (hq_query q) of
        Inl e \<Rightarrow> (Inl e, s)
      | Inr validated_query \<Rightarrow>
      (case validate_float (hq_text_weight q) ''text_weight'' (Some 0) (Some 1) of
        Inl e \<Rightarrow> (Inl e, s)
      | Inr text_weight \<Rightarrow>
      (case validate_float (hq_vector_weight q) ''vector_weight'' (Some 0) (Some 1) of
        Inl e \<Rightarrow> (Inl e, s)
      | Inr vector_weight \<Rightarrow>
      if \<bar>text_weight + vector_weight - 1\<bar> > 1 / 100
      then (Inl (ValidationError ''weights'' ''text_weight and vector_weight should sum to 1.0''), s)
      else
      (case validate_assistant_filter (hq_assistant_filter q) of
        Inl e \<Rightarrow> (Inl e, s)
      | Inr af \<Rightarrow>
      (case SearchQuery validated_query (hq_limit q * 2) 0 af None None True True of
        Inl e \<Rightarrow> (Inl (ExternalServiceError ''search_engine''), s)
      | Inr text_query \<Rightarrow>
      (case text_search text_query s of (text_response, s1) \<Rightarrow>
      (case VectorSearchQuery validated_query (1 / 2) (hq_limit q * 2) af of
        Inl e \<Rightarrow> (Inl (ExternalServiceError ''search_engine''), s1)
      | Inr vector_query \<Rightarrow>
      (case vector_search vector_query s1 of (vector_response, s2) \<Rightarrow>
      (case text_response of
        Inl e \<Rightarrow> (Inl (ExternalServiceError ''search_engine''), s2)
      | Inr tr \<Rightarrow>
      (case vector_response of
        Inl e \<Rightarrow> (Inl (ExternalServiceError ''search_engine''), s2)
      | Inr vr \<Rightarrow>
          (let final_results =
                 take (nat (hq_limit q))
                   (sort_by_score
                      (map snd (combine_results text_weight vector_weight
                                  (results tr) (results vr))))
           in (Inr \<lparr>results = final_results, total_count = length final_results,
                     resp_query = validated_query, search_type = ''hybrid''\<rparr>, s2))))))))))))"

text \<open>
  The route \<^verbatim>\<open>POST /search/hybrid\<close>: the request body is parsed into a
  \<^verbatim>\<open>HybridSearchQuery\<close> before \<^verbatim>\<open>hybrid_search\<close> runs.
\<close>

definition hybrid_search_route ::
  "string \<Rightarrow> real \<Rightarrow> real \<Rightarrow> int \<Rightarrow> string list option \<Rightarrow> session
     \<Rightarrow> (error + search_response) \<times> session" where
  "hybrid_search_route q tw vw lmt af s =
     (case HybridSearchQuery q tw vw lmt af of
        Inl e \<Rightarrow> (Inl e, s)
      | Inr body \<Rightarrow> hybrid_search body s)"

section \<open>rag_query\<close>

record rag_request =
  rq_query :: string
  rq_max_context_tokens :: int
  rq_max_results :: int
  rq_assistant_filter :: "string list option"
  rq_include_conversation_context :: bool
  rq_temperature :: real

record rag_context =
  source_id :: string
  source_type :: string
  ctx_content :: string
  ctx_assistant_name :: string
  ctx_thread_title :: string
  ctx_timestamp :: int
  relevance_score :: real

record rag_response =
  answer :: string
  rr_query :: string
  contexts :: "rag_context list"
  total_context_tokens :: int
  sources_count :: nat

definition RAGQuery ::
  "string \<Rightarrow> int \<Rightarrow> int \<Rightarrow> string list option \<Rightarrow> bool \<Rightarrow> real \<Rightarrow> error + rag_request" where
  "RAGQuery q max_context_tokens max_results af include_conversation_context temperature =
     (if max_context_tokens < 500 \<or> max_context_tokens > 8000
      then Inl (RequestValidationError ''max_context_tokens'')
      else if max_results < 1 \<or> max_results > 50
      then Inl (RequestValidationError ''max_results'')
      else if temperature < 0 \<or> temperature > 2
      then Inl (RequestValidationError ''temperature'')
      else Inr \<lparr>rq_query = q, rq_max_context_tokens = max_context_tokens,
                 rq_max_results = max_results, rq_assistant_filter = af,
                 rq_include_conversation_context = include_conversation_context,
                 rq_temperature = temperature\<rparr>)"

text \<open>
  Lines 702-710: the neighbours of a message in its thread.
  \<^verbatim>\<open>order_by(...).first()\<close> is the head of the sorted rows, or \<^verbatim>\<open>None\<close>.
\<close>

definition first_row :: "'a list \<Rightarrow> 'a option" where
  "first_row rows = (case rows of [] \<Rightarrow> None | x # _ \<Rightarrow> Some x)"

definition prev_message :: "database \<Rightarrow> message \<Rightarrow> message option" where
  "prev_message d msg =
     first_row (sort_key (\<lambda>x. - m_timestamp x)
       (filter (\<lambda>x. m_thread_id x = m_thread_id msg \<and> m_timestamp x < m_timestamp msg)
          (messages d)))"

definition next_message :: "database \<Rightarrow> message \<Rightarrow> message option" where
  "next_message d msg =
     first_row (sort_key m_timestamp
       (filter (\<lambda>x. m_thread_id x = m_thread_id msg \<and> m_timestamp x > m_timestamp msg)
          (messages d)))"

fun py_join :: "string \<Rightarrow> string list \<Rightarrow> string" where
  "py_join sep [] = []"
| "py_join sep [x] = x"
| "py_join sep (x # y # ys) = x @ sep @ py_join sep (y # ys)"

definition context_parts :: "database \<Rightarrow> message \<Rightarrow> string list" where
  "context_parts d msg =
     (case prev_message d msg of
        None \<Rightarrow> []
      | Some p \<Rightarrow> [''[Previous] '' @ m_role p @ '': '' @ take 200 (m_content p) @ ''...''])
     @ [''[Current] '' @ m_role msg @ '': '' @ m_content msg]
     @ (case next_message d msg of
          None \<Rightarrow> []
        | Some n \<Rightarrow> [''[Next] '' @ m_role n @ '': '' @ take 200 (m_content n) @ ''...''])"

definition context_content :: "database \<Rightarrow> bool \<Rightarrow> message \<Rightarrow> string" where
  "context_content d include_conversation_context msg =
     (if include_conversation_context then py_join [CHR 0x0A] (context_parts d msg)
      else m_content msg)"

definition estimated_tokens :: "string \<Rightarrow> int" where
  "estimated_tokens content = int (length content) div 4"

text \<open>
  Lines 689-739: the loop over the retrieved messages. It leaves at the first message
  whose block does not fit (\<^verbatim>\<open>break\<close>).
\<close>

definition make_context ::
  "database \<Rightarrow> bool \<Rightarrow> string list \<Rightarrow> message \<times> thread \<times> assistant \<Rightarrow> rag_context" where
  "make_context d inc terms row =
     (case row of (m, t, a) \<Rightarrow>
        \<lparr>source_id = m_id m, source_type = ''message'',
         ctx_content = context_content d inc m,
         ctx_assistant_name = a_name a, ctx_thread_title = t_title t,
         ctx_timestamp = m_timestamp m,
         relevance_score = relevance terms (py_lower (m_content m))\<rparr>)"

fun build_contexts ::
  "database \<Rightarrow> bool \<Rightarrow> string list \<Rightarrow> int \<Rightarrow> (message \<times> thread \<times> assistant) list
     \<Rightarrow> rag_context list \<Rightarrow> int \<Rightarrow> rag_context list \<times> int" where
  "build_contexts d inc terms max_tokens [] ctxs total_tokens = (ctxs, total_tokens)"
| "build_contexts d inc terms max_tokens (row # rows) ctxs total_tokens =
     (let ctx = make_context d inc terms row in
      if total_tokens + estimated_tokens (ctx_content ctx) > max_tokens
      then (ctxs, total_tokens)
      else build_contexts d inc terms max_tokens rows (ctxs @ [ctx])
             (total_tokens + estimated_tokens (ctx_content ctx)))"

text \<open>
  Lines 661-686: the messages the query retrieves, at most \<^verbatim>\<open>max_results\<close> of them.
\<close>

definition retrieved_messages ::
  "database \<Rightarrow> string list \<Rightarrow> string list option \<Rightarrow> int \<Rightarrow> (message \<times> thread \<times> assistant) list" where
  "retrieved_messages d terms af max_results =
     take (nat max_results)
       (filter (\<lambda>row. case row of (m, t, a) \<Rightarrow>
                  message_matches terms row \<and> assistant_allowed af a)
          (joined_messages d))"

text \<open>
  \<open>generate\<close> is the generative client: from the user's question and the accepted
  contexts (which determine the prompt) it returns the answer, or \<open>None\<close> when the call
  raises. The unused \<^verbatim>\<open>HybridSearchQuery\<close> object of line 654 is not modelled.
\<close>

definition rag_query ::
  "(string \<Rightarrow> rag_context list \<Rightarrow> string option) \<Rightarrow> rag_request \<Rightarrow> session
     \<Rightarrow> (error + rag_response) \<times> session" where
  "rag_query generate q s =
     (case validate_search_query (rq_query q) of
        Inl e \<Rightarrow> (Inl e, s)
      | Inr validated_query \<Rightarrow>
      (case validate_integer (rq_max_context_tokens q) ''max_context_tokens''
              (Some 500) (Some 8000) of
        Inl e \<Rightarrow> (Inl e, s)
      | Inr validated_max_context_tokens \<Rightarrow>
      (case validate_integer (rq_max_results q) ''max_results'' (Some 1) (Some 50) of
        Inl e \<Rightarrow> (Inl e, s)
      | Inr validated_max_results \<Rightarrow>
      (case validate_float (rq_temperature q) ''temperature'' (Some 0) (Some 2) of
        Inl e \<Rightarrow> (Inl e, s)
      | Inr validated_temperature \<Rightarrow>
      (case validate_assistant_filter (rq_assistant_filter q) of
        Inl e \<Rightarrow> (Inl e, s)
      | Inr af \<Rightarrow>
      (case next_fault s of
        (True, s') \<Rightarrow> (Inl (ExternalServiceError ''llm_service''), s')
      | (False, s') \<Rightarrow>
          (let search_terms = py_split (py_lower validated_query);
               rows = retrieved_messages (db s') search_terms af validated_max_results
           in if search_terms = [] \<and> rows \<noteq> []
              then (Inl (ExternalServiceError ''llm_service''), s')
              else
                (case build_contexts (db s') (rq_include_conversation_context q) search_terms
                        validated_max_context_tokens rows [] 0 of
                   (ctxs, total_tokens) \<Rightarrow>
                     (case generate (rq_query q) ctxs of
                        None \<Rightarrow> (Inl (ExternalServiceError ''llm_service''), s')
                      | Some text \<Rightarrow>
                          (Inr \<lparr>answer = text, rr_query = validated_query, contexts = ctxs,
                                 total_context_tokens = total_tokens,
                                 sources_count = length ctxs\<rparr>, s'))))))))))"

definition rag_query_route ::
  "(string \<Rightarrow> rag_context list \<Rightarrow> string option) \<Rightarrow> string \<Rightarrow> int \<Rightarrow> int
     \<Rightarrow> string list option \<Rightarrow> bool \<Rightarrow> real \<Rightarrow> session \<Rightarrow> (error + rag_response) \<times> session" where
  "rag_query_route generate q max_context_tokens max_results af inc temperature s =
     (case RAGQuery q max_context_tokens max_results af inc temperature of
        Inl e \<Rightarrow> (Inl e, s)
      | Inr body \<Rightarrow> rag_query generate body s)"

section \<open>The embedding pipeline\<close>

record embedding_job =
  j_target_kind :: string
  j_target_id :: string
  j_content :: string
  j_model :: string
  j_dim :: nat

record embedding_result =
  er_target_kind :: string
  er_target_id :: string
  er_vector :: "real list"
  er_model :: string
  er_dim :: nat

text \<open>
  An \<^verbatim>\<open>EmbeddingPipeline\<close> object. \<open>embedding_client\<close> is the client's
  \<^verbatim>\<open>embed\<close> method; the clients of \<^verbatim>\<open>llm/clients.py\<close> have no
  \<^verbatim>\<open>embed_batch\<close>, so \<^verbatim>\<open>generate_embeddings_batch\<close> calls it once per job.
\<close>

record embedding_pipeline =
  p_batch_size :: nat
  p_max_concurrent :: nat
  embedding_client :: "string \<Rightarrow> real list"
  p_model :: string
  p_dim :: nat

definition has_embedding :: "database \<Rightarrow> string \<Rightarrow> string \<Rightarrow> string \<Rightarrow> bool" where
  "has_embedding d kind target mdl =
     list_ex (\<lambda>e. e_target_kind e = kind \<and> e_target_id e = target \<and> e_model e = mdl)
       (embeddings d)"

text \<open>
  The outer join against \<^verbatim>\<open>Embedding\<close> filtered on \<^verbatim>\<open>Embedding.id IS NULL\<close>: the
  rows with no embedding of the pipeline's model.
\<close>

definition unembedded_messages :: "embedding_pipeline \<Rightarrow> database \<Rightarrow> message list" where
  "unembedded_messages p d =
     filter (\<lambda>msg. \<not> has_embedding d ''message'' (m_id msg) (p_model p)) (messages d)"

definition unembedded_memory_cards :: "embedding_pipeline \<Rightarrow> database \<Rightarrow> memory_card list" where
  "unembedded_memory_cards p d =
     filter (\<lambda>card. \<not> has_embedding d ''memory_card'' (c_id card) (p_model p)) (memory_cards d)"

text \<open>
  One turn of each generator's \<^verbatim>\<open>while True\<close> loop at a given offset: the query with
  \<^verbatim>\<open>LIMIT batch_size OFFSET offset\<close> and the jobs built from its rows. An empty list is
  the generator's \<^verbatim>\<open>break\<close>.
\<close>

definition stream_unembedded_messages ::
  "embedding_pipeline \<Rightarrow> database \<Rightarrow> nat \<Rightarrow> embedding_job list" where
  "stream_unembedded_messages p d offset =
     map (\<lambda>msg. \<lparr>j_target_kind = ''message'', j_target_id = m_id msg,
                  j_content = m_content msg, j_model = p_model p, j_dim = p_dim p\<rparr>)
       (take (p_batch_size p) (drop offset (unembedded_messages p d)))"

definition stream_unembedded_memory_cards ::
  "embedding_pipeline \<Rightarrow> database \<Rightarrow> nat \<Rightarrow> embedding_job list" where
  "stream_unembedded_memory_cards p d offset =
     map (\<lambda>card. \<lparr>j_target_kind = ''memory_card'', j_target_id = c_id card,
                   j_content = c_title card @ [CHR 0x0A] @ c_summary card,
                   j_model = p_model p, j_dim = p_dim p\<rparr>)
       (take (p_batch_size p) (drop offset (unembedded_memory_cards p d)))"

definition generate_embeddings_batch ::
  "embedding_pipeline \<Rightarrow> embedding_job list \<Rightarrow> embedding_result list" where
  "generate_embeddings_batch p jobs =
     (if jobs = [] then []
      else map (\<lambda>job. \<lparr>er_target_kind = j_target_kind job, er_target_id = j_target_id job,
                        er_vector = embedding_client p (j_content job),
                        er_model = j_model job, er_dim = j_dim job\<rparr>) jobs)"

text \<open>
  \<^verbatim>\<open>INSERT ... ON CONFLICT (target_kind, target_id, model) DO UPDATE SET vector\<close>, one
  row at a time: a row with the same key has its vector overwritten, otherwise the row
  is appended. The statement as a whole fails when two of its rows carry the same key.
\<close>

definition emb_key :: "embedding \<Rightarrow> string \<times> string \<times> string" where
  "emb_key e = (e_target_kind e, e_target_id e, e_model e)"

definition result_key :: "embedding_result \<Rightarrow> string \<times> string \<times> string" where
  "result_key r = (er_target_kind r, er_target_id r, er_model r)"

fun upsert_row :: "embedding_result \<Rightarrow> embedding list \<Rightarrow> embedding list" where
  "upsert_row r [] =
     [\<lparr>e_target_kind = er_target_kind r, e_target_id = er_target_id r, e_model = er_model r,
       e_dim = er_dim r, e_vector = er_vector r\<rparr>]"
| "upsert_row r (e # es) =
     (if emb_key e = result_key r then e\<lparr>e_vector := er_vector r\<rparr> # es
      else e # upsert_row r es)"

definition bulk_upsert_embeddings ::
  "database \<Rightarrow> embedding_result list \<Rightarrow> error + (database \<times> nat)" where
  "bulk_upsert_embeddings d rs =
     (if rs = [] then Inr (d, 0)
      else if \<not> distinct (map result_key rs) then Inl CardinalityViolation
      else Inr (d\<lparr>embeddings := fold upsert_row rs (embeddings d)\<rparr>, length rs))"

lemma emb_key_upsert_row:
  "map emb_key (upsert_row r es) =
     (if result_key r \<in> set (map emb_key es) then map emb_key es
      else map emb_key es @ [result_key r])"
  by (induction es) (auto simp: emb_key_def result_key_def)

lemma keys_upsert_row:
  "emb_key ` set (upsert_row r es) = insert (result_key r) (emb_key ` set es)"
proof -
  have "set (map emb_key (upsert_row r es)) = insert (result_key r) (set (map emb_key es))"
    unfolding emb_key_upsert_row by auto
  then show ?thesis by simp
qed

lemma keys_fold_upsert_row:
  "emb_key ` set (fold upsert_row rs es) = result_key ` set rs \<union> emb_key ` set es"
proof (induction rs arbitrary: es)
  case Nil
  show ?case by simp
next
  case (Cons r rs)
  show ?case
    unfolding fold_simps Cons.IH keys_upsert_row by auto
qed

lemma has_embedding_keys:
  "has_embedding d kind target mdl \<longleftrightarrow> (kind, target, mdl) \<in> emb_key ` set (embeddings d)"
  by (auto simp: has_embedding_def list_ex_iff emb_key_def image_iff)

lemma bulk_upsert_tables:
  assumes "bulk_upsert_embeddings d rs = Inr (d', n)"
  shows "messages d' = messages d" and "memory_cards d' = memory_cards d"
  using assms by (auto simp: bulk_upsert_embeddings_def split: if_splits)

lemma bulk_upsert_has_embedding:
  assumes "bulk_upsert_embeddings d rs = Inr (d', n)"
  shows "has_embedding d' kind target mdl \<longleftrightarrow>
           (kind, target, mdl) \<in> result_key ` set rs \<or> has_embedding d kind target mdl"
proof -
  have "embeddings d' = fold upsert_row rs (embeddings d)"
    using assms by (auto simp: bulk_upsert_embeddings_def split: if_splits)
  then show ?thesis
    unfolding has_embedding_keys by (simp add: keys_fold_upsert_row)
qed

lemma generate_embeddings_batch_keys:
  "map result_key (generate_embeddings_batch p jobs) =
     map (\<lambda>job. (j_target_kind job, j_target_id job, j_model job)) jobs"
  by (simp add: generate_embeddings_batch_def result_key_def)

lemma message_batch_keys:
  "map result_key (generate_embeddings_batch p (stream_unembedded_messages p d offset)) =
     map (\<lambda>msg. (''message'', m_id msg, p_model p))
       (take (p_batch_size p) (drop offset (unembedded_messages p d)))"
  by (simp add: generate_embeddings_batch_keys stream_unembedded_messages_def)

lemma memory_card_batch_keys:
  "map result_key (generate_embeddings_batch p (stream_unembedded_memory_cards p d offset)) =
     map (\<lambda>card. (''memory_card'', c_id card, p_model p))
       (take (p_batch_size p) (drop offset (unembedded_memory_cards p d)))"
  by (simp add: generate_embeddings_batch_keys stream_unembedded_memory_cards_def)

lemma filter_shrinks:
  assumes "x \<in> set xs" and "P x" and "\<not> Q x" and "\<And>y. Q y \<Longrightarrow> P y"
  shows "length (filter Q xs) < length (filter P xs)"
proof -
  have "filter Q xs = filter Q (filter P xs)"
    using assms(4) by (auto intro: filter_cong)
  moreover have "length (filter Q (filter P xs)) < length (filter P xs)"
    using assms(1-3) by (intro length_filter_less[of x]) auto
  ultimately show ?thesis by simp
qed

lemma messages_batch_shrinks:
  assumes "stream_unembedded_messages p d offset \<noteq> []"
    and "bulk_upsert_embeddings d
           (generate_embeddings_batch p (stream_unembedded_messages p d offset)) = Inr (d', n)"
  shows "length (unembedded_messages p d') < length (unembedded_messages p d)"
proof -
  let ?batch = "take (p_batch_size p) (drop offset (unembedded_messages p d))"
  have "?batch \<noteq> []"
    using assms(1) by (simp add: stream_unembedded_messages_def)
  then obtain msg where msg: "msg \<in> set ?batch"
    using hd_in_set by blast
  then have un: "msg \<in> set (unembedded_messages p d)"
    by (meson in_set_dropD in_set_takeD)
  have "(''message'', m_id msg, p_model p)
          \<in> set (map result_key
                (generate_embeddings_batch p (stream_unembedded_messages p d offset)))"
    unfolding message_batch_keys using msg by (simp add: image_iff) blast
  then have key: "(''message'', m_id msg, p_model p)
               \<in> result_key `
                   set (generate_embeddings_batch p (stream_unembedded_messages p d offset))"
    by simp
  show ?thesis
    unfolding unembedded_messages_def bulk_upsert_tables[OF assms(2)]
  proof (rule filter_shrinks[of msg])
    show "msg \<in> set (messages d)"
      using un by (simp add: unembedded_messages_def)
    show "\<not> has_embedding d ''message'' (m_id msg) (p_model p)"
      using un by (simp add: unembedded_messages_def)
    show "\<not> \<not> has_embedding d' ''message'' (m_id msg) (p_model p)"
      using key by (simp add: bulk_upsert_has_embedding[OF assms(2)])
    show "\<not> has_embedding d ''message'' (m_id y) (p_model p)"
      if "\<not> has_embedding d' ''message'' (m_id y) (p_model p)" for y
      using that by (simp add: bulk_upsert_has_embedding[OF assms(2)])
  qed
qed

lemma memory_cards_batch_shrinks:
  assumes "stream_unembedded_memory_cards p d offset \<noteq> []"
    and "bulk_upsert_embeddings d
           (generate_embeddings_batch p (stream_unembedded_memory_cards p d offset))
         = Inr (d', n)"
  shows "length (unembedded_memory_cards p d') < length (unembedded_memory_cards p d)"
proof -
  let ?batch = "take (p_batch_size p) (drop offset (unembedded_memory_cards p d))"
  have "?batch \<noteq> []"
    using assms(1) by (simp add: stream_unembedded_memory_cards_def)
  then obtain card where card: "card \<in> set ?batch"
    using hd_in_set by blast
  then have un: "card \<in> set (unembedded_memory_cards p d)"
    by (meson in_set_dropD in_set_takeD)
  have "(''memory_card'', c_id card, p_model p)
          \<in> set (map result_key
                (generate_embeddings_batch p (stream_unembedded_memory_cards p d offset)))"
    unfolding memory_card_batch_keys using card by (simp add: image_iff) blast
  then have key: "(''memory_card'', c_id card, p_model p)
               \<in> result_key `
                   set (generate_embeddings_batch p (stream_unembedded_memory_cards p d offset))"
    by simp
  show ?thesis
    unfolding unembedded_memory_cards_def bulk_upsert_tables[OF assms(2)]
  proof (rule filter_shrinks[of card])
    show "card \<in> set (memory_cards d)"
      using un by (simp add: unembedded_memory_cards_def)
    show "\<not> has_embedding d ''memory_card'' (c_id card) (p_model p)"
      using un by (simp add: unembedded_memory_cards_def)
    show "\<not> \<not> has_embedding d' ''memory_card'' (c_id card) (p_model p)"
      using key by (simp add: bulk_upsert_has_embedding[OF assms(2)])
    show "\<not> has_embedding d ''memory_card'' (c_id y) (p_model p)"
      if "\<not> has_embedding d' ''memory_card'' (c_id y) (p_model p)" for y
      using that by (simp add: bulk_upsert_has_embedding[OF assms(2)])
  qed
qed

text \<open>
  \<^verbatim>\<open>process_embedding_pipeline\<close>, lines 218-224 and 227-233: each
  \<^verbatim>\<open>async for\<close> resumes its generator after the batch has been upserted and
  committed, so the next pull sees the new embeddings and an offset advanced by
  \<^verbatim>\<open>batch_size\<close>. An error of the upsert leaves the loop and the pipeline.
\<close>

function process_messages ::
  "embedding_pipeline \<Rightarrow> nat \<Rightarrow> database \<Rightarrow> nat \<Rightarrow> error + (database \<times> nat)" where
  "process_messages p offset d processed =
     (if stream_unembedded_messages p d offset = [] then Inr (d, processed)
      else
        (case bulk_upsert_embeddings d
                (generate_embeddings_batch p (stream_unembedded_messages p d offset)) of
           Inl e \<Rightarrow> Inl e
         | Inr (d', n) \<Rightarrow> process_messages p (offset + p_batch_size p) d' (processed + n)))"
  by pat_completeness auto
termination
proof (relation "measure (\<lambda>(p, offset, d, processed). length (unembedded_messages p d))")
  show "wf (measure (\<lambda>(p, offset, d, processed). length (unembedded_messages p d)))"
    by simp
next
  fix p offset d processed b x y
  assume "stream_unembedded_messages p d offset \<noteq> []"
    and "bulk_upsert_embeddings d
           (generate_embeddings_batch p (stream_unembedded_messages p d offset)) = Inr b"
    and "(x, y) = b"
  then have "length (unembedded_messages p x) < length (unembedded_messages p d)"
    using messages_batch_shrinks[of p d offset x y] by simp
  then show "((p, offset + p_batch_size p, x, processed + y), p, offset, d, processed)
               \<in> measure (\<lambda>(p, offset, d, processed). length (unembedded_messages p d))"
    by simp
qed

declare process_messages.simps [simp del]

function process_memory_cards ::
  "embedding_pipeline \<Rightarrow> nat \<Rightarrow> database \<Rightarrow> nat \<Rightarrow> error + (database \<times> nat)" where
  "process_memory_cards p offset d processed =
     (if stream_unembedded_memory_cards p d offset = [] then Inr (d, processed)
      else
        (case bulk_upsert_embeddings d
                (generate_embeddings_batch p (stream_unembedded_memory_cards p d offset)) of
           Inl e \<Rightarrow> Inl e
         | Inr (d', n) \<Rightarrow>
             process_memory_cards p (offset + p_batch_size p) d' (processed + n)))"
  by pat_completeness auto
termination
proof (relation "measure (\<lambda>(p, offset, d, processed). length (unembedded_memory_cards p d))")
  show "wf (measure (\<lambda>(p, offset, d, processed). length (unembedded_memory_cards p d)))"
    by simp
next
  fix p offset d processed b x y
  assume "stream_unembedded_memory_cards p d offset \<noteq> []"
    and "bulk_upsert_embeddings d
           (generate_embeddings_batch p (stream_unembedded_memory_cards p d offset)) = Inr b"
    and "(x, y) = b"
  then have "length (unembedded_memory_cards p x) < length (unembedded_memory_cards p d)"
    using memory_cards_batch_shrinks[of p d offset x y] by simp
  then show "((p, offset + p_batch_size p, x, processed + y), p, offset, d, processed)
               \<in> measure (\<lambda>(p, offset, d, processed). length (unembedded_memory_cards p d))"
    by simp
qed

declare process_memory_cards.simps [simp del]

record pipeline_stats =
  stat_messages :: nat
  stat_memory_cards :: nat
  stat_artifacts :: nat

definition process_embedding_pipeline ::
  "embedding_pipeline \<Rightarrow> database \<Rightarrow> error + (database \<times> pipeline_stats)" where
  "process_embedding_pipeline p d =
     (case process_messages p 0 d 0 of
        Inl e \<Rightarrow> Inl e
      | Inr (d1, n_messages) \<Rightarrow>
          (case process_memory_cards p 0 d1 0 of
             Inl e \<Rightarrow> Inl e
           | Inr (d2, n_cards) \<Rightarrow>
               Inr (d2, \<lparr>stat_messages = n_messages, stat_memory_cards = n_cards,
                         stat_artifacts = 0\<rparr>)))"


section \<open>The vector search as the claim words it\<close>


section \<open>Example stores\<close>

text \<open>
  Small stores, requests and clients on which the properties below are evaluated.
\<close>

definition two_messages :: database where
  "two_messages =
     \<lparr>assistants = [], threads = [],
      messages =
        [\<lparr>m_id = ''m1'', m_thread_id = ''t1'', m_role = ''user'', m_content = ''a'',
          m_timestamp = 1\<rparr>,
         \<lparr>m_id = ''m2'', m_thread_id = ''t1'', m_role = ''assistant'', m_content = ''bb'',
          m_timestamp = 2\<rparr>],
      artifacts = [], memory_cards = [], embeddings = []\<rparr>"

definition length_client :: "string \<Rightarrow> real list" where
  "length_client t = [real (length t)]"

definition pipeline_of_one :: embedding_pipeline where
  "pipeline_of_one =
     \<lparr>p_batch_size = 1, p_max_concurrent = 10, embedding_client = length_client,
      p_model = ''mock'', p_dim = 1\<rparr>"

definition turn1 :: message where
  "turn1 = \<lparr>m_id = ''u1'', m_thread_id = ''t1'', m_role = ''user'',
             m_content = ''python basics'', m_timestamp = 10\<rparr>"

definition turn2 :: message where
  "turn2 = \<lparr>m_id = ''u2'', m_thread_id = ''t1'', m_role = ''assistant'',
             m_content = ''python tutorial'', m_timestamp = 20\<rparr>"

definition turn3 :: message where
  "turn3 = \<lparr>m_id = ''u3'', m_thread_id = ''t1'', m_role = ''user'',
             m_content = ''thanks'', m_timestamp = 30\<rparr>"

definition three_turns :: database where
  "three_turns =
     \<lparr>assistants = [\<lparr>a_id = ''a1'', a_name = ''claude''\<rparr>],
      threads = [\<lparr>t_id = ''t1'', t_title = ''Intro'', t_assistant_id = ''a1''\<rparr>,
                 \<lparr>t_id = ''t2'', t_title = ''Other'', t_assistant_id = ''a1''\<rparr>],
      messages =
        [turn1,
         \<lparr>m_id = ''x1'', m_thread_id = ''t2'', m_role = ''user'',
          m_content = ''unrelated'', m_timestamp = 15\<rparr>,
         turn2, turn3],
      artifacts = [], memory_cards = [], embeddings = []\<rparr>"

definition canned_answer :: "string \<Rightarrow> rag_context list \<Rightarrow> string option" where
  "canned_answer question ctxs = Some ''(mock) Summary''"

definition python_question :: rag_request where
  "python_question =
     \<lparr>rq_query = ''python'', rq_max_context_tokens = 500, rq_max_results = 10,
      rq_assistant_filter = None, rq_include_conversation_context = True,
      rq_temperature = 7 / 10\<rparr>"

definition hybrid_store :: database where
  "hybrid_store =
     \<lparr>assistants = [\<lparr>a_id = ''a1'', a_name = ''claude''\<rparr>],
      threads = [\<lparr>t_id = ''t1'', t_title = ''Games'', t_assistant_id = ''a1''\<rparr>],
      messages =
        [\<lparr>m_id = ''h1'', m_thread_id = ''t1'', m_role = ''user'',
          m_content = ''go go go go go'', m_timestamp = 1\<rparr>,
         \<lparr>m_id = ''h2'', m_thread_id = ''t1'', m_role = ''assistant'',
          m_content = ''go away'', m_timestamp = 2\<rparr>],
      artifacts = [], memory_cards = [], embeddings = []\<rparr>"



definition go_session :: "bool list \<Rightarrow> session" where
  "go_session fs = \<lparr>db = hybrid_store, faults = fs\<rparr>"



definition go_hybrid_query :: hybrid_search_query where
  "go_hybrid_query =
     \<lparr>hq_query = ''go'', hq_text_weight = 3 / 10, hq_vector_weight = 7 / 10, hq_limit = 10,
      hq_assistant_filter = None\<rparr>"




section \<open>Invariants of the upsert and of the pipeline loops\<close>











section \<open>Properties of the embedding pipeline\<close>

text \<open>
  C1. One run of the pipeline is claimed to leave no item without an embedding of the
  model. The loop advances its offset by \<^verbatim>\<open>batch_size\<close> after every batch while the
  set it pages through shrinks by the batch just embedded, so every second batch is
  stepped over. With two unembedded messages and a batch size of 1 the run embeds
  \<open>m1\<close>, pulls an empty page at offset 1 of the one remaining row, and returns with
  \<open>m2\<close> still unembedded.
\<close>

theorem process_embedding_pipeline_skips_second_batch:
  "process_embedding_pipeline pipeline_of_one two_messages =
     Inr (two_messages
            \<lparr>embeddings :=
               [\<lparr>e_target_kind = ''message'', e_target_id = ''m1'', e_model = ''mock'',
                 e_dim = 1, e_vector = [1]\<rparr>]\<rparr>,
          \<lparr>stat_messages = 1, stat_memory_cards = 0, stat_artifacts = 0\<rparr>) \<and>
   unembedded_messages pipeline_of_one
     (two_messages
        \<lparr>embeddings :=
           [\<lparr>e_target_kind = ''message'', e_target_id = ''m1'', e_model = ''mock'',
             e_dim = 1, e_vector = [1]\<rparr>]\<rparr>) =
     [\<lparr>m_id = ''m2'', m_thread_id = ''t1'', m_role = ''assistant'', m_content = ''bb'',
       m_timestamp = 2\<rparr>]"
  by code_simp



section \<open>Properties of context assembly\<close>

lemma build_contexts_prefix:
  assumes "build_contexts d inc terms B rows ctxs n0 = (ctxs', n')"
  shows "\<exists>k. ctxs' = ctxs @ map (make_context d inc terms) (take k rows) \<and>
             n' = n0 + (\<Sum>r\<leftarrow>take k rows.
                                  estimated_tokens (ctx_content (make_context d inc terms r)))"
  using assms
proof (induction rows arbitrary: ctxs n0)
  case Nil
  then show ?case by simp
next
  case (Cons row rows)
  let ?ctx = "make_context d inc terms row"
  show ?case
  proof (cases "n0 + estimated_tokens (ctx_content ?ctx) > B")
    case True
    with Cons.prems have "ctxs' = ctxs" "n' = n0" by (simp_all add: Let_def)
    then show ?thesis by (intro exI[of _ 0]) simp
  next
    case False
    with Cons.prems have
      "build_contexts d inc terms B rows (ctxs @ [?ctx])
         (n0 + estimated_tokens (ctx_content ?ctx)) = (ctxs', n')"
      by (simp add: Let_def)
    from Cons.IH[OF this] obtain k where
      "ctxs' = (ctxs @ [?ctx]) @ map (make_context d inc terms) (take k rows)"
      "n' = n0 + estimated_tokens (ctx_content ?ctx) +
          (\<Sum>r\<leftarrow>take k rows. estimated_tokens (ctx_content (make_context d inc terms r)))"
      by blast
    then show ?thesis by (intro exI[of _ "Suc k"]) simp
  qed
qed

lemma build_contexts_budget:
  assumes "build_contexts d inc terms B rows ctxs n0 = (ctxs', n')" and "n0 \<le> B"
  shows "n' \<le> B"
  using assms
proof (induction rows arbitrary: ctxs n0)
  case Nil
  then show ?case by simp
next
  case (Cons row rows)
  then show ?case
    by (auto simp: Let_def split: if_splits)
qed

lemma validate_integer_Inr: "validate_integer v f lo hi = Inr v' \<Longrightarrow> v' = v"
  by (auto simp: validate_integer_def split: if_splits)

lemma rag_query_Inr:
  assumes "rag_query generate q s = (Inr resp, s')"
  shows "\<exists>vq af. validate_search_query (rq_query q) = Inr vq \<and>
           rr_query resp = vq \<and> 500 \<le> rq_max_context_tokens q \<and>
           build_contexts (db s') (rq_include_conversation_context q) (py_split (py_lower vq))
             (rq_max_context_tokens q)
             (retrieved_messages (db s') (py_split (py_lower vq)) af (rq_max_results q)) [] 0
           = (contexts resp, total_context_tokens resp)"
  using assms
  unfolding rag_query_def
  by (auto split: sum.splits prod.splits if_splits option.splits bool.splits
        simp: Let_def validate_integer_def)

text \<open>
  C3. The token total a RAG response reports never exceeds the caller's budget. The
  assembly loop keeps that bound for every non-negative budget, and a response of
  \<^verbatim>\<open>rag_query\<close> (which accepts budgets from 500 to 8000) reports a total that is at
  most \<^verbatim>\<open>max_context_tokens\<close>, equal to the sum of \<open>len(content) // 4\<close> over the
  contexts it returns; each returned context carries the whole block built for its
  message, never a part of it.
\<close>

theorem rag_query_respects_token_budget:
  "(0 \<le> B \<longrightarrow> snd (build_contexts d inc terms B rows [] 0) \<le> B) \<and>
   (rag_query generate q s = (Inr resp, s') \<longrightarrow>
      total_context_tokens resp \<le> rq_max_context_tokens q \<and>
      total_context_tokens resp = (\<Sum>c\<leftarrow>contexts resp. estimated_tokens (ctx_content c)) \<and>
      (\<exists>rows. contexts resp =
          map (make_context (db s') (rq_include_conversation_context q)
                 (py_split (py_lower (rr_query resp)))) rows))"
proof (intro conjI impI)
  assume "0 \<le> B"
  then show "snd (build_contexts d inc terms B rows [] 0) \<le> B"
    using build_contexts_budget[of d inc terms B rows "[]" 0]
    by (cases "build_contexts d inc terms B rows [] 0") simp
next
  assume run: "rag_query generate q s = (Inr resp, s')"
  then obtain vq rows where vq: "rr_query resp = vq"
    and "500 \<le> rq_max_context_tokens q"
    and bc: "build_contexts (db s') (rq_include_conversation_context q) (py_split (py_lower vq))
               (rq_max_context_tokens q) rows [] 0 = (contexts resp, total_context_tokens resp)"
    using rag_query_Inr by blast
  then show "total_context_tokens resp \<le> rq_max_context_tokens q"
    using build_contexts_budget[OF bc] by simp
  from build_contexts_prefix[OF bc] obtain k where
    k: "contexts resp = map (make_context (db s') (rq_include_conversation_context q)
                               (py_split (py_lower vq))) (take k rows)"
       "total_context_tokens resp = (\<Sum>r\<leftarrow>take k rows. estimated_tokens (ctx_content
           (make_context (db s') (rq_include_conversation_context q) (py_split (py_lower vq)) r)))"
    by auto
  show "total_context_tokens resp = (\<Sum>c\<leftarrow>contexts resp. estimated_tokens (ctx_content c))"
    unfolding k by (simp add: comp_def)
  show "\<exists>rows. contexts resp =
          map (make_context (db s') (rq_include_conversation_context q)
                 (py_split (py_lower (rr_query resp)))) rows"
    using k(1) vq by blast
qed

theorem rag_query_respects_token_budget_witness:
  "\<exists>resp s'.
     rag_query canned_answer python_question \<lparr>db = three_turns, faults = []\<rparr> = (Inr resp, s') \<and>
     sources_count resp = 2 \<and> total_context_tokens resp = 39 \<and>
     total_context_tokens resp \<le> rq_max_context_tokens python_question \<and>
     fst (build_contexts three_turns True [''python''] 20
            (retrieved_messages three_turns [''python''] None 10) [] 0)
       = [make_context three_turns True [''python'']
            (turn1, \<lparr>t_id = ''t1'', t_title = ''Intro'', t_assistant_id = ''a1''\<rparr>,
             \<lparr>a_id = ''a1'', a_name = ''claude''\<rparr>)] \<and>
     snd (build_contexts three_turns True [''python''] 20
            (retrieved_messages three_turns [''python''] None 10) [] 0) \<le> 20"
proof -
  let ?S = "\<lparr>db = three_turns, faults = []\<rparr>"
  let ?R = "\<lparr>answer = ''(mock) Summary'', rr_query = ''python'',
              contexts =
                [make_context three_turns True [''python'']
                   (turn1, \<lparr>t_id = ''t1'', t_title = ''Intro'', t_assistant_id = ''a1''\<rparr>,
                    \<lparr>a_id = ''a1'', a_name = ''claude''\<rparr>),
                 make_context three_turns True [''python'']
                   (turn2, \<lparr>t_id = ''t1'', t_title = ''Intro'', t_assistant_id = ''a1''\<rparr>,
                    \<lparr>a_id = ''a1'', a_name = ''claude''\<rparr>)],
              total_context_tokens = 39, sources_count = 2\<rparr>"
  have run: "rag_query canned_answer python_question ?S = (Inr ?R, ?S)"
    by code_simp
  have blocks:
    "fst (build_contexts three_turns True [''python''] 20
            (retrieved_messages three_turns [''python''] None 10) [] 0)
       = [make_context three_turns True [''python'']
            (turn1, \<lparr>t_id = ''t1'', t_title = ''Intro'', t_assistant_id = ''a1''\<rparr>,
             \<lparr>a_id = ''a1'', a_name = ''claude''\<rparr>)]"
    by code_simp
  note budget = rag_query_respects_token_budget
    [of 20 three_turns True "[''python'']"
        "retrieved_messages three_turns [''python''] None 10"
        canned_answer python_question ?S ?R ?S]
  have loop: "snd (build_contexts three_turns True [''python''] 20
                     (retrieved_messages three_turns [''python''] None 10) [] 0) \<le> 20"
    using budget by simp
  have bound: "total_context_tokens ?R \<le> rq_max_context_tokens python_question"
    using budget run by blast
  show ?thesis
    using run blocks loop bound by (intro exI[of _ ?R] exI[of _ ?S]) simp
qed

lemma first_row_sort_key_least:
  assumes "x \<in> set xs" and "\<And>y. y \<in> set xs \<Longrightarrow> y \<noteq> x \<Longrightarrow> f x < f y"
  shows "first_row (sort_key f xs) = Some x"
proof -
  have "set (sort_key f xs) = set xs" by simp
  with assms(1) obtain h t where ht: "sort_key f xs = h # t"
    by (cases "sort_key f xs") auto
  have "sorted (map f (h # t))"
    using sorted_sort_key[of f xs] ht by simp
  moreover have "x \<in> set (h # t)"
    using assms(1) ht \<open>set (sort_key f xs) = set xs\<close> by simp
  ultimately have "f h \<le> f x" by auto
  moreover have "h \<in> set xs"
    using ht \<open>set (sort_key f xs) = set xs\<close> by auto
  ultimately have "h = x"
    using assms(2)[of h] by fastforce
  then show ?thesis by (simp add: first_row_def ht)
qed


lemma first_row_sort_key_none:
  assumes "set xs = {}"
  shows "first_row (sort_key f xs) = None"
  using assms by (simp add: first_row_def)

text \<open>
  C8. Neighbour expansion within a thread. When the messages of a thread are exactly
  \<open>m1\<close>, \<open>m2\<close>, \<open>m3\<close> with timestamps \<open>t1 < t2 < t3\<close>, expanding \<open>m2\<close> finds \<open>m1\<close>
  before it and \<open>m3\<close> after it, expanding \<open>m1\<close> finds no predecessor and expanding
  \<open>m3\<close> no successor, and the context built for a message holds one part per message
  found: a missing neighbour adds no part.
\<close>

theorem neighbours_in_a_three_message_thread:
  assumes "set (filter (\<lambda>x. m_thread_id x = T) (messages d)) = {m1, m2, m3}"
    and "m_timestamp m1 < m_timestamp m2" and "m_timestamp m2 < m_timestamp m3"
  shows "prev_message d m2 = Some m1 \<and> next_message d m2 = Some m3 \<and>
         prev_message d m1 = None \<and> next_message d m3 = None \<and>
         next_message d m1 = Some m2 \<and> prev_message d m3 = Some m2 \<and>
         context_parts d m1 =
           [''[Current] '' @ m_role m1 @ '': '' @ m_content m1,
            ''[Next] '' @ m_role m2 @ '': '' @ take 200 (m_content m2) @ ''...''] \<and>
         context_parts d m2 =
           [''[Previous] '' @ m_role m1 @ '': '' @ take 200 (m_content m1) @ ''...'',
            ''[Current] '' @ m_role m2 @ '': '' @ m_content m2,
            ''[Next] '' @ m_role m3 @ '': '' @ take 200 (m_content m3) @ ''...''] \<and>
         context_parts d m3 =
           [''[Previous] '' @ m_role m2 @ '': '' @ take 200 (m_content m2) @ ''...'',
            ''[Current] '' @ m_role m3 @ '': '' @ m_content m3]"
proof -
  have mem: "x \<in> set (messages d) \<and> m_thread_id x = T \<longleftrightarrow> x = m1 \<or> x = m2 \<or> x = m3" for x
    using assms(1) by (auto simp: set_eq_iff)
  have only3: "x = m1 \<or> x = m2 \<or> x = m3" if "x \<in> set (messages d)" "m_thread_id x = T" for x
    using mem that by blast
  have T: "m_thread_id m1 = T" "m_thread_id m2 = T" "m_thread_id m3 = T"
    and M: "m1 \<in> set (messages d)" "m2 \<in> set (messages d)" "m3 \<in> set (messages d)"
    using mem by blast+
  have p2: "prev_message d m2 = Some m1"
    unfolding prev_message_def
    by (rule first_row_sort_key_least) (use T M assms(2,3) in \<open>auto dest: only3\<close>)
  have n2: "next_message d m2 = Some m3"
    unfolding next_message_def
    by (rule first_row_sort_key_least) (use T M assms(2,3) in \<open>auto dest: only3\<close>)
  have n1: "next_message d m1 = Some m2"
    unfolding next_message_def
    by (rule first_row_sort_key_least) (use T M assms(2,3) in \<open>auto dest: only3\<close>)
  have p3: "prev_message d m3 = Some m2"
    unfolding prev_message_def
    by (rule first_row_sort_key_least) (use T M assms(2,3) in \<open>auto dest: only3\<close>)
  have p1: "prev_message d m1 = None"
    unfolding prev_message_def
    by (rule first_row_sort_key_none) (use T assms(2,3) in \<open>auto dest: only3\<close>)
  have n3: "next_message d m3 = None"
    unfolding next_message_def
    by (rule first_row_sort_key_none) (use T assms(2,3) in \<open>auto dest: only3\<close>)
  show ?thesis
    by (simp add: context_parts_def p1 p2 p3 n1 n2 n3)
qed

theorem neighbours_in_a_three_message_thread_witness:
  "set (filter (\<lambda>x. m_thread_id x = ''t1'') (messages three_turns)) = {turn1, turn2, turn3} \<and>
   m_timestamp turn1 < m_timestamp turn2 \<and> m_timestamp turn2 < m_timestamp turn3 \<and>
   prev_message three_turns turn2 = Some turn1 \<and>
   next_message three_turns turn2 = Some turn3 \<and>
   prev_message three_turns turn1 = None \<and>
   next_message three_turns turn3 = None \<and>
   context_parts three_turns turn1 =
     [''[Current] user: python basics'', ''[Next] assistant: python tutorial...''] \<and>
   context_parts three_turns turn3 =
     [''[Previous] assistant: python tutorial...'', ''[Current] user: thanks'']"
proof -
  have h1: "set (filter (\<lambda>x. m_thread_id x = ''t1'') (messages three_turns))
              = {turn1, turn2, turn3}"
    by (simp add: three_turns_def turn1_def turn2_def turn3_def)
  have h2: "m_timestamp turn1 < m_timestamp turn2"
    by (simp add: turn1_def turn2_def)
  have h3: "m_timestamp turn2 < m_timestamp turn3"
    by (simp add: turn2_def turn3_def)
  have roles: "m_role turn1 = ''user''" "m_role turn2 = ''assistant''" "m_role turn3 = ''user''"
    "m_content turn1 = ''python basics''" "m_content turn2 = ''python tutorial''"
    "m_content turn3 = ''thanks''"
    by (simp_all add: turn1_def turn2_def turn3_def)
  show ?thesis
    using h1 h2 h3 neighbours_in_a_three_message_thread[OF h1 h2 h3] by (simp add: roles)
qed

section \<open>Properties of the search endpoints\<close>




























lemma HybridSearchQuery_Inr:
  "HybridSearchQuery q tw vw lmt af = Inr body \<Longrightarrow>
     body = \<lparr>hq_query = q, hq_text_weight = tw, hq_vector_weight = vw, hq_limit = lmt,
             hq_assistant_filter = af\<rparr> \<and> 1 \<le> lmt \<and> lmt \<le> 100"
  by (auto simp: HybridSearchQuery_def split: if_splits)


lemma hybrid_search_empty_query:
  assumes "py_strip (hq_query body) = []"
  shows "hybrid_search body s = (Inl (ValidationError ''search_query'' ''cannot be empty''), s)"
  using assms
  by (simp add: hybrid_search_def validate_search_query_def validate_string_def)




text \<open>
  C5. The claim that a limit outside \<open>[1, 100]\<close> is clamped and that only an empty query
  is rejected fails: limits 101 and 0 are rejected, and so is the non-empty query
  \<open>select go\<close>.
\<close>

theorem hybrid_search_limit_counterexample:
  "hybrid_search_route ''go'' (3 / 10) (7 / 10) 101 None (go_session []) =
     (Inl (RequestValidationError ''limit''), go_session []) \<and>
   hybrid_search_route ''go'' (3 / 10) (7 / 10) 0 None (go_session []) =
     (Inl (RequestValidationError ''limit''), go_session []) \<and>
   hybrid_search_route ''select go'' (3 / 10) (7 / 10) 10 None (go_session []) =
     (Inl (ValidationError ''search_query'' ''contains potentially malicious content''),
      go_session [])"
  by code_simp

text \<open>
  C5, as the code has it. A request whose limit is outside \<open>[1, 100]\<close> is rejected and
  never served; it is not clamped. An empty or blank query is rejected as a caller
  error, with the session untouched, so before either ranking runs.
\<close>

theorem hybrid_search_rejects_limit_out_of_range:
  "((lmt < 1 \<or> 100 < lmt) \<longrightarrow> (\<exists>e. hybrid_search_route q tw vw lmt af s = (Inl e, s))) \<and>
   (py_strip q = [] \<longrightarrow> (\<exists>e. hybrid_search_route q tw vw lmt af s = (Inl e, s))) \<and>
   (py_strip (hq_query body) = [] \<longrightarrow>
      hybrid_search body s = (Inl (ValidationError ''search_query'' ''cannot be empty''), s))"
proof (intro conjI impI)
  assume "lmt < 1 \<or> 100 < lmt"
  then show "\<exists>e. hybrid_search_route q tw vw lmt af s = (Inl e, s)"
    by (auto simp: hybrid_search_route_def HybridSearchQuery_def)
next
  assume e: "py_strip q = []"
  show "\<exists>e. hybrid_search_route q tw vw lmt af s = (Inl e, s)"
  proof (cases "HybridSearchQuery q tw vw lmt af")
    case (Inl e)
    then show ?thesis by (simp add: hybrid_search_route_def)
  next
    case (Inr b)
    then have "py_strip (hq_query b) = []"
      using e by (auto dest!: HybridSearchQuery_Inr)
    from hybrid_search_empty_query[OF this, of s] show ?thesis
      using Inr by (simp add: hybrid_search_route_def)
  qed
next
  assume "py_strip (hq_query body) = []"
  then show "hybrid_search body s =
      (Inl (ValidationError ''search_query'' ''cannot be empty''), s)"
    by (rule hybrid_search_empty_query)
qed

theorem hybrid_search_rejects_limit_out_of_range_witness:
  "(100 :: int) < 101 \<and>
   (\<exists>e. hybrid_search_route ''go'' (3 / 10) (7 / 10) 101 None (go_session []) =
          (Inl e, go_session [])) \<and>
   py_strip ''  '' = [] \<and>
   (\<exists>e. hybrid_search_route ''  '' (3 / 10) (7 / 10) 10 None (go_session []) =
          (Inl e, go_session [])) \<and>
   hybrid_search (go_hybrid_query\<lparr>hq_query := ''  ''\<rparr>) (go_session []) =
     (Inl (ValidationError ''search_query'' ''cannot be empty''), go_session [])"
proof -
  have blank: "py_strip ''  '' = []"
    by code_simp
  have blank': "py_strip (hq_query (go_hybrid_query\<lparr>hq_query := ''  ''\<rparr>)) = []"
    using blank by simp
  note fact = hybrid_search_rejects_limit_out_of_range
  have a: "\<exists>e. hybrid_search_route ''go'' (3 / 10) (7 / 10) 101 None (go_session []) =
          (Inl e, go_session [])"
    using fact[where lmt = 101, THEN conjunct1] by simp
  have b: "\<exists>e. hybrid_search_route ''  '' (3 / 10) (7 / 10) 10 None (go_session []) =
          (Inl e, go_session [])"
    using fact[where q = "''  ''", THEN conjunct2, THEN conjunct1] blank by blast
  have c: "hybrid_search (go_hybrid_query\<lparr>hq_query := ''  ''\<rparr>) (go_session []) =
     (Inl (ValidationError ''search_query'' ''cannot be empty''), go_session [])"
    using fact[where body = "go_hybrid_query\<lparr>hq_query := ''  ''\<rparr>",
               THEN conjunct2, THEN conjunct2] blank' by blast
  show ?thesis
    using a b c blank by simp
qed





section \<open>Properties of scoring and fusion\<close>






















end
